theory Spec2Isabelle
  imports Complex_Main "HOL-Library.AList" "HOL-Library.Sublist"
    "HOL-Library.Char_ord" "HOL-Library.List_Lexorder"
begin

section \<open>Values, errors and responses\<close>

text \<open>
  Identifiers are UUID strings.  A missing (\<^verbatim>\<open>undefined\<close>) JavaScript value is \<open>None\<close>.
\<close>

type_synonym uuid = string

text \<open>
  The errors that travel through the services and controllers.  The three Sequelize
  classes are the ones the services test with \<^verbatim>\<open>error.name === '...'\<close>; a unique-constraint
  error carries \<^verbatim>\<open>error.fields\<close> (column name and offending value, as text) and, like a
  validation error, the messages of \<^verbatim>\<open>error.errors\<close>.  \<open>HttpError\<close> is what \<^verbatim>\<open>createError(status, msg)\<close>
  builds, \<open>Error\<close> is \<^verbatim>\<open>new Error(msg)\<close>, and \<open>ReferenceError\<close> is what the runtime raises
  when an identifier that is bound nowhere is evaluated.
\<close>

datatype js_error =
    SequelizeForeignKeyConstraintError string
  | SequelizeUniqueConstraintError "(string \<times> string) list" "string list"
  | SequelizeValidationError "string list"
  | SequelizeDatabaseError string
  | HttpError int string
  | Error string
  | ReferenceError string

text \<open>\<^verbatim>\<open>errors.map(e => e.message).join(', ')\<close>\<close>

fun join_comma :: "string list \<Rightarrow> string" where
  "join_comma [] = []"
| "join_comma [m] = m"
| "join_comma (m # n # ms) = m @ '', '' @ join_comma (n # ms)"

fun err_message :: "js_error \<Rightarrow> string" where
  "err_message (SequelizeForeignKeyConstraintError m) = m"
| "err_message (SequelizeUniqueConstraintError fs ms) = ''Validation error''"
| "err_message (SequelizeValidationError ms) = join_comma ms"
| "err_message (SequelizeDatabaseError m) = m"
| "err_message (HttpError s m) = m"
| "err_message (Error m) = m"
| "err_message (ReferenceError m) = m"

text \<open>\<^verbatim>\<open>err.status\<close>: only errors made by \<^verbatim>\<open>createError\<close> have one.\<close>

fun err_status :: "js_error \<Rightarrow> int option" where
  "err_status (HttpError s m) = Some s"
| "err_status e = None"

text \<open>\<^verbatim>\<open>s.includes(sub)\<close>\<close>

fun str_includes :: "string \<Rightarrow> string \<Rightarrow> bool" where
  "str_includes [] sub = (sub = [])"
| "str_includes (c # cs) sub = (prefix sub (c # cs) \<or> str_includes cs sub)"

text \<open>
  A response is a status code and a JSON body.  The body shapes are the ones the
  controllers and the global error handler build:
  \<^item> \<open>Json x\<close>: a record or a pagination envelope;
  \<^item> \<open>Message m\<close>: \<^verbatim>\<open>{ message: m }\<close>;
  \<^item> \<open>StatusMessage m\<close>: \<^verbatim>\<open>{ status: 'error', message: m }\<close>;
  \<^item> \<open>MessageError m e\<close>: \<^verbatim>\<open>{ message: m, error: e }\<close>;
  \<^item> \<open>ErrorBody code m\<close>: \<^verbatim>\<open>{ status: 'error', statusCode: code, message: m }\<close>;
  \<^item> \<open>Errors es\<close>: \<^verbatim>\<open>{ errors: [{field: message}, ...] }\<close>;
  \<^item> \<open>ValidationFailed es\<close>: \<^verbatim>\<open>{ status: 'error', message: 'Validation failed', errors: [...] }\<close>;
  \<^item> \<open>NoContent\<close>: \<^verbatim>\<open>send()\<close> without a body.
\<close>

datatype 'a body =
    Json 'a
  | Message string
  | StatusMessage string
  | MessageError string string
  | ErrorBody int string
  | Errors "(string \<times> string) list"
  | ValidationFailed "(string \<times> string) list"
  | NoContent

record 'a response =
  status :: int
  body :: "'a body"

definition respond :: "int \<Rightarrow> 'a body \<Rightarrow> 'a response" where
  "respond code b = \<lparr>status = code, body = b\<rparr>"

text \<open>
  The global error handler of \<^verbatim>\<open>server.js\<close>, where every \<^verbatim>\<open>next(error)\<close> ends:
  \<^verbatim>\<open>statusCode = err.status || 500\<close>, \<^verbatim>\<open>message = err.message || 'Internal Server Error'\<close>.
\<close>

definition globalErrorHandler :: "js_error \<Rightarrow> 'a response" where
  "globalErrorHandler err =
     (let statusCode = (case err_status err of None \<Rightarrow> 500 | Some s \<Rightarrow> if s = 0 then 500 else s);
          message = (if err_message err = [] then ''Internal Server Error'' else err_message err)
      in respond statusCode (ErrorBody statusCode message))"

section \<open>Pagination\<close>

text \<open>
  \<^verbatim>\<open>getOffset\<close> of the services.  Page and limit are integers (the controllers' \<^verbatim>\<open>toInt\<close>).
\<close>

definition getOffset :: "int \<Rightarrow> int \<Rightarrow> int" where
  "getOffset page limit = (page - 1) * limit"

text \<open>
  A JavaScript number as far as \<^verbatim>\<open>Math.ceil(count / limit)\<close> can produce one from a row
  count and an integer limit: dividing by zero gives \<^verbatim>\<open>Infinity\<close> (or \<^verbatim>\<open>NaN\<close> for 0/0).
  Counts stay far below \<open>2^53\<close>, where the quotient of the doubles rounds up to the
  integer ceiling.
\<close>

datatype jsnum = Num int | Infinity | NaN

definition math_ceil_div :: "nat \<Rightarrow> int \<Rightarrow> jsnum" where
  "math_ceil_div count limit =
     (if limit = 0 then (if count = 0 then NaN else Infinity)
      else Num (- ((- int count) div limit)))"

record 'r envelope =
  totalItems :: nat
  totalPages :: jsnum
  currentPage :: int
  items :: "'r list"

section \<open>The storage layer\<close>

text \<open>
  A condition on one column of a where-clause: equality, or the database's \<^verbatim>\<open>ILIKE\<close> with
  a pattern.  A where-clause is a JavaScript object from column names to conditions, an
  association list here: assigning to a key that is already there replaces its condition
  (\<open>AList.update\<close>), as assigning to an object property does.
\<close>

datatype cond = Eq string | ILike string

type_synonym whereClause = "(string \<times> cond) list"

definition lower_char :: "char \<Rightarrow> char" where
  "lower_char c =
     (case map_of (zip ''ABCDEFGHIJKLMNOPQRSTUVWXYZ'' ''abcdefghijklmnopqrstuvwxyz'') c of
        None \<Rightarrow> c
      | Some l \<Rightarrow> l)"

text \<open>
  The \<^verbatim>\<open>LIKE\<close> match of a pattern against a text: \<^verbatim>\<open>%\<close> stands for any run of characters,
  \<^verbatim>\<open>_\<close> for one character, and a backslash makes the next pattern character literal.  A
  pattern that ends in a lone backslash, which the database rejects, matches nothing here.
\<close>

fun like :: "string \<Rightarrow> string \<Rightarrow> bool" where
  "like [] s = (s = [])"
| "like (p # ps) [] = (p = CHR ''%'' \<and> like ps [])"
| "like (p # ps) (c # cs) =
     (if p = CHR ''%'' then like ps (c # cs) \<or> like (p # ps) cs
      else if p = CHR ''_'' then like ps cs
      else if p = CHR 0x5C then
        (case ps of [] \<Rightarrow> False | q # qs \<Rightarrow> q = c \<and> like qs cs)
      else p = c \<and> like ps cs)"

text \<open>\<^verbatim>\<open>ILIKE\<close>: the same match without regard to the case of (ASCII) letters.\<close>

definition iLike :: "string \<Rightarrow> string \<Rightarrow> bool" where
  "iLike pat s = like (map lower_char pat) (map lower_char s)"

text \<open>
  A condition holds of a column value; a \<^verbatim>\<open>NULL\<close> column (\<open>None\<close>) satisfies none.
\<close>

fun holds :: "cond \<Rightarrow> string option \<Rightarrow> bool" where
  "holds c None = False"
| "holds (Eq v) (Some s) = (s = v)"
| "holds (ILike pat) (Some s) = iLike pat s"

text \<open>
  A row satisfies a where-clause when every condition holds of its column: the
  conditions are combined with AND.  \<open>col r k\<close> reads column \<open>k\<close> of row \<open>r\<close>.
\<close>

definition satisfies :: "('r \<Rightarrow> string \<Rightarrow> string option) \<Rightarrow> whereClause \<Rightarrow> 'r \<Rightarrow> bool" where
  "satisfies col w r = list_all (\<lambda>(k, c). holds c (col r k)) w"

text \<open>
  \<^verbatim>\<open>Model.findAndCountAll({ where, limit, offset, order })\<close>: the number of rows that
  satisfy the where-clause, and the rows of the ordered selection from \<open>offset\<close> on, at
  most \<open>limit\<close> of them.  The database rejects a negative \<^verbatim>\<open>LIMIT\<close> or \<^verbatim>\<open>OFFSET\<close>.
\<close>

definition findAndCountAll ::
  "('r \<Rightarrow> bool) \<Rightarrow> ('r list \<Rightarrow> 'r list) \<Rightarrow> int \<Rightarrow> int \<Rightarrow> 'r list \<Rightarrow> js_error + (nat \<times> 'r list)" where
  "findAndCountAll wh order limit offset table =
     (if limit < 0 then Inl (SequelizeDatabaseError ''LIMIT must not be negative'')
      else if offset < 0 then Inl (SequelizeDatabaseError ''OFFSET must not be negative'')
      else Inr (length (filter wh table),
                take (nat limit) (drop (nat offset) (order (filter wh table)))))"


subsection \<open>Tables\<close>

text \<open>
  One record per Sequelize model, with the columns of \<^verbatim>\<open>schema.sql\<close> (the field names
  carry a prefix per table).  \<^verbatim>\<open>updated_at\<close> is written by the database trigger alone and
  is left out.  \<^verbatim>\<open>REAL\<close> columns hold rationals, timestamps are natural numbers.
\<close>

record LLMProvider =
  pv_id :: uuid
  pv_name :: string
  pv_hf_link :: string
  pv_country :: "string option"
  pv_created_at :: nat

record LLMModel =
  md_id :: uuid
  md_name :: string
  md_hf_link :: string
  md_description :: string
  md_provider :: uuid
  md_license :: "string option"
  md_version :: string
  md_param_count :: int
  md_top_p :: "rat option"
  md_temperature :: "rat option"
  md_min_tokens :: "int option"
  md_max_tokens :: "int option"
  md_context_window :: int
  md_created_at :: nat

record Prompt =
  pr_id :: uuid
  pr_prompt :: string
  pr_prompt_tokens :: int
  pr_description :: "string option"
  pr_created_at :: nat

record LLMPrompt =
  lp_model_id :: uuid
  lp_prompt_id :: uuid
  lp_order :: "int option"
  lp_created_at :: nat

record Evaluator =
  ev_id :: uuid
  ev_name :: string
  ev_created_at :: nat

record UserPrompt =
  up_user_id :: uuid
  up_prompt_id :: uuid
  up_created_at :: nat

text \<open>
  The database.  Of the tables that no service under study writes, only the foreign-key
  columns that point at providers, models and evaluators are kept: \<open>provider_metric\<close> is
  the \<^verbatim>\<open>provider_id\<close> column of that table, \<open>llm_response\<close> and \<open>model_metric\<close> are their
  \<^verbatim>\<open>model_id\<close> columns, and \<open>feedback\<close>, \<open>score\<close> and \<open>tag\<close> are their \<^verbatim>\<open>user_id\<close> columns
  (the values that are not \<^verbatim>\<open>NULL\<close>).
\<close>

record db =
  llm_provider :: "LLMProvider list"
  llm_model :: "LLMModel list"
  prompt :: "Prompt list"
  llm_prompt :: "LLMPrompt list"
  evaluator :: "Evaluator list"
  user_prompt :: "UserPrompt list"
  provider_metric :: "uuid list"
  llm_response :: "uuid list"
  model_metric :: "uuid list"
  feedback :: "uuid list"
  score :: "uuid list"
  tag :: "uuid list"

text \<open>Reading a column by name, for the where-clauses.\<close>

definition col_provider :: "LLMProvider \<Rightarrow> string \<Rightarrow> string option" where
  "col_provider r k =
     (if k = ''name'' then Some (pv_name r)
      else if k = ''country'' then pv_country r
      else None)"

definition col_model :: "LLMModel \<Rightarrow> string \<Rightarrow> string option" where
  "col_model r k =
     (if k = ''name'' then Some (md_name r)
      else if k = ''provider'' then Some (md_provider r)
      else if k = ''license'' then md_license r
      else None)"

definition col_evaluator :: "Evaluator \<Rightarrow> string \<Rightarrow> string option" where
  "col_evaluator r k = (if k = ''name'' then Some (ev_name r) else None)"

definition col_llm_prompt :: "LLMPrompt \<Rightarrow> string \<Rightarrow> string option" where
  "col_llm_prompt r k =
     (if k = ''model_id'' then Some (lp_model_id r)
      else if k = ''prompt_id'' then Some (lp_prompt_id r)
      else None)"

definition col_user_prompt :: "UserPrompt \<Rightarrow> string \<Rightarrow> string option" where
  "col_user_prompt r k =
     (if k = ''user_id'' then Some (up_user_id r)
      else if k = ''prompt_id'' then Some (up_prompt_id r)
      else None)"

text \<open>\<^verbatim>\<open>Model.findByPk(id)\<close>: the row with that key, or \<^verbatim>\<open>null\<close>.\<close>

definition findByPk :: "('r \<Rightarrow> uuid) \<Rightarrow> uuid \<Rightarrow> 'r list \<Rightarrow> 'r option" where
  "findByPk key i table = find (\<lambda>r. key r = i) table"

section \<open>The list services\<close>

text \<open>
  \<^verbatim>\<open>if (v) { whereClause[k] = mk(v) }\<close>: a filter that is missing or the empty string is
  falsy and adds nothing.
\<close>

definition when_given :: "string option \<Rightarrow> string \<Rightarrow> (string \<Rightarrow> cond) \<Rightarrow> whereClause \<Rightarrow> whereClause" where
  "when_given v k mk w =
     (case v of None \<Rightarrow> w | Some s \<Rightarrow> if s = [] then w else AList.update k (mk s) w)"

text \<open>The default of a destructured parameter: \<^verbatim>\<open>{ page = 1, limit = 10 }\<close>.\<close>

definition default_to :: "'a \<Rightarrow> 'a option \<Rightarrow> 'a" where
  "default_to d v = (case v of None \<Rightarrow> d | Some x \<Rightarrow> x)"

text \<open>\<^verbatim>\<open>order: [['name', 'ASC']]\<close> and \<^verbatim>\<open>order: [['created_at', 'DESC']]\<close>.\<close>

definition order_asc :: "('r \<Rightarrow> string) \<Rightarrow> 'r list \<Rightarrow> 'r list" where
  "order_asc key rows = sort_key key rows"

definition order_desc :: "('r \<Rightarrow> nat) \<Rightarrow> 'r list \<Rightarrow> 'r list" where
  "order_desc key rows = rev (sort_key key rows)"

subsection \<open>Providers\<close>

definition providers_where :: "string option \<Rightarrow> string option \<Rightarrow> whereClause" where
  "providers_where search country =
     when_given country ''country'' (\<lambda>c. ILike c)
       (when_given search ''name'' (\<lambda>s. ILike (''%'' @ s @ ''%'')) [])"

definition getAllProviders ::
  "int option \<Rightarrow> int option \<Rightarrow> string option \<Rightarrow> string option \<Rightarrow> db
     \<Rightarrow> js_error + LLMProvider envelope" where
  "getAllProviders page0 limit0 search country d =
     (let page = default_to 1 page0;
          limit = default_to 10 limit0;
          offset = getOffset page limit;
          whereClause = providers_where search country
      in case findAndCountAll (satisfies col_provider whereClause) (order_asc pv_name)
                limit offset (llm_provider d) of
           Inl error \<Rightarrow> Inl (Error ''Could not retrieve providers'')
         | Inr (count, rows) \<Rightarrow>
             Inr \<lparr>totalItems = count, totalPages = math_ceil_div count limit,
                  currentPage = page, items = rows\<rparr>)"

subsection \<open>Models\<close>

text \<open>
  The four \<^verbatim>\<open>if\<close>s of \<^verbatim>\<open>getAllModels\<close> in their order: the search writes the key
  \<^verbatim>\<open>name\<close>, and so does the exact name filter after it.
\<close>

definition models_where ::
  "string option \<Rightarrow> string option \<Rightarrow> string option \<Rightarrow> string option \<Rightarrow> whereClause" where
  "models_where search name provider license =
     when_given license ''license'' (\<lambda>l. ILike (''%'' @ l @ ''%''))
       (when_given provider ''provider'' (\<lambda>p. Eq p)
         (when_given name ''name'' (\<lambda>n. Eq n)
           (when_given search ''name'' (\<lambda>s. ILike (''%'' @ s @ ''%'')) [])))"

text \<open>
  \<^verbatim>\<open>include: [{ model: LLMProvider, as: 'llmProvider', attributes: ['id', 'name'] }]\<close>:
  each model row comes with the id and name of its provider.
\<close>

type_synonym model_with_provider = "LLMModel \<times> (uuid \<times> string) option"

definition include_llmProvider :: "db \<Rightarrow> LLMModel \<Rightarrow> model_with_provider" where
  "include_llmProvider d m =
     (m, map_option (\<lambda>p. (pv_id p, pv_name p)) (findByPk pv_id (md_provider m) (llm_provider d)))"

definition getAllModels ::
  "int option \<Rightarrow> int option \<Rightarrow> string option \<Rightarrow> string option \<Rightarrow> string option \<Rightarrow> string option
     \<Rightarrow> db \<Rightarrow> js_error + model_with_provider envelope" where
  "getAllModels page0 limit0 search name provider license d =
     (let page = default_to 1 page0;
          limit = default_to 10 limit0;
          offset = (page - 1) * limit;
          whereClause = models_where search name provider license
      in case findAndCountAll (satisfies col_model whereClause) (order_asc md_name)
                limit offset (llm_model d) of
           Inl error \<Rightarrow> Inl (HttpError 500 ''Error fetching models from database'')
         | Inr (count, rows) \<Rightarrow>
             Inr \<lparr>totalItems = count, totalPages = math_ceil_div count limit,
                  currentPage = page, items = map (include_llmProvider d) rows\<rparr>)"

subsection \<open>Evaluators\<close>

definition evaluators_where :: "string option \<Rightarrow> whereClause" where
  "evaluators_where search = when_given search ''name'' (\<lambda>s. ILike (''%'' @ s @ ''%'')) []"

definition getAllEvaluators ::
  "int option \<Rightarrow> int option \<Rightarrow> string option \<Rightarrow> db \<Rightarrow> js_error + Evaluator envelope" where
  "getAllEvaluators page0 limit0 search d =
     (let page = default_to 1 page0;
          limit = default_to 10 limit0;
          offset = getOffset page limit;
          whereClause = evaluators_where search
      in case findAndCountAll (satisfies col_evaluator whereClause) (order_asc ev_name)
                limit offset (evaluator d) of
           Inl error \<Rightarrow> Inl (Error ''Could not retrieve evaluators'')
         | Inr (count, rows) \<Rightarrow>
             Inr \<lparr>totalItems = count, totalPages = math_ceil_div count limit,
                  currentPage = page, items = rows\<rparr>)"

subsection \<open>Model-prompt associations\<close>

definition llm_prompts_where :: "string option \<Rightarrow> string option \<Rightarrow> whereClause" where
  "llm_prompts_where model_id prompt_id =
     when_given prompt_id ''prompt_id'' (\<lambda>p. Eq p)
       (when_given model_id ''model_id'' (\<lambda>m. Eq m) [])"

definition getAllLLMPrompts ::
  "int option \<Rightarrow> int option \<Rightarrow> string option \<Rightarrow> string option \<Rightarrow> db
     \<Rightarrow> js_error + LLMPrompt envelope" where
  "getAllLLMPrompts page0 limit0 model_id prompt_id d =
     (let page = default_to 1 page0;
          limit = default_to 10 limit0;
          offset = getOffset page limit;
          whereClause = llm_prompts_where model_id prompt_id
      in case findAndCountAll (satisfies col_llm_prompt whereClause) (order_desc lp_created_at)
                limit offset (llm_prompt d) of
           Inl error \<Rightarrow> Inl (Error ''Could not retrieve LLM prompts'')
         | Inr (count, rows) \<Rightarrow>
             Inr \<lparr>totalItems = count, totalPages = math_ceil_div count limit,
                  currentPage = page, items = rows\<rparr>)"

subsection \<open>User-prompt associations\<close>

definition user_prompts_where :: "string option \<Rightarrow> string option \<Rightarrow> whereClause" where
  "user_prompts_where user_id prompt_id =
     when_given prompt_id ''prompt_id'' (\<lambda>p. Eq p)
       (when_given user_id ''user_id'' (\<lambda>u. Eq u) [])"

text \<open>
  The rows come with the evaluator's id and name and the prompt's id and description.
\<close>

type_synonym user_prompt_full =
  "UserPrompt \<times> (uuid \<times> string) option \<times> (uuid \<times> string option) option"

definition include_evaluator_prompt :: "db \<Rightarrow> UserPrompt \<Rightarrow> user_prompt_full" where
  "include_evaluator_prompt d a =
     (a,
      map_option (\<lambda>e. (ev_id e, ev_name e)) (findByPk ev_id (up_user_id a) (evaluator d)),
      map_option (\<lambda>p. (pr_id p, pr_description p)) (findByPk pr_id (up_prompt_id a) (prompt d)))"

definition getAllUserPrompts ::
  "int option \<Rightarrow> int option \<Rightarrow> string option \<Rightarrow> string option \<Rightarrow> db
     \<Rightarrow> js_error + user_prompt_full envelope" where
  "getAllUserPrompts page0 limit0 user_id prompt_id d =
     (let page = default_to 1 page0;
          limit = default_to 10 limit0;
          offset = getOffset page limit;
          whereClause = user_prompts_where user_id prompt_id
      in case findAndCountAll (satisfies col_user_prompt whereClause) (order_desc up_created_at)
                limit offset (user_prompt d) of
           Inl error \<Rightarrow> Inl (Error ''Could not retrieve user-prompt associations'')
         | Inr (count, rows) \<Rightarrow>
             Inr \<lparr>totalItems = count, totalPages = math_ceil_div count limit,
                  currentPage = page, items = map (include_evaluator_prompt d) rows\<rparr>)"


section \<open>Validation middleware\<close>

text \<open>
  What \<^verbatim>\<open>validationResult(req)\<close> holds after the route's rule chains have run: one entry
  (\<^verbatim>\<open>path\<close>, \<^verbatim>\<open>msg\<close>) per failed check.  The chains themselves are the validation library's;
  a handler behind them receives the sanitised fields, typed as the rules leave them.
\<close>

type_synonym verr = "string \<times> string"

text \<open>
  \<^verbatim>\<open>validate\<close> of the provider, model and evaluator controllers.  \<open>next\<close> is the rest of the
  route: the handler that calls the service.
\<close>

definition validate :: "verr list \<Rightarrow> (db \<Rightarrow> 'a response \<times> db) \<Rightarrow> db \<Rightarrow> 'a response \<times> db" where
  "validate errors next d =
     (if errors = [] then next d
      else (respond 422 (Errors (map (\<lambda>(path, msg). (path, msg)) errors)), d))"

text \<open>\<^verbatim>\<open>err.path || 'general'\<close>\<close>

definition path_or_general :: "string \<Rightarrow> string" where
  "path_or_general path = (if path = [] then ''general'' else path)"

text \<open>\<^verbatim>\<open>validate\<close> of the user-prompt controller.\<close>

definition validate_userPrompt ::
  "verr list \<Rightarrow> (db \<Rightarrow> 'a response \<times> db) \<Rightarrow> db \<Rightarrow> 'a response \<times> db" where
  "validate_userPrompt errors next d =
     (if errors = [] then next d
      else (respond 422 (Errors (map (\<lambda>(path, msg). (path_or_general path, msg)) errors)), d))"

text \<open>\<^verbatim>\<open>validate\<close> of the model-prompt controller.\<close>

definition validate_llmPrompt ::
  "verr list \<Rightarrow> (db \<Rightarrow> 'a response \<times> db) \<Rightarrow> db \<Rightarrow> 'a response \<times> db" where
  "validate_llmPrompt errors next d =
     (if errors = [] then next d
      else (respond 422
              (ValidationFailed (map (\<lambda>(path, msg). (path_or_general path, msg)) errors)), d))"

section \<open>List controllers\<close>

definition getAllProviders_ctl ::
  "verr list \<Rightarrow> int option \<Rightarrow> int option \<Rightarrow> string option \<Rightarrow> string option \<Rightarrow> db
     \<Rightarrow> LLMProvider envelope response \<times> db" where
  "getAllProviders_ctl errors page limit search country =
     validate errors (\<lambda>d.
       case getAllProviders page limit search country d of
         Inr result \<Rightarrow> (respond 200 (Json result), d)
       | Inl error \<Rightarrow> (globalErrorHandler error, d))"

definition getAllModels_ctl ::
  "verr list \<Rightarrow> int option \<Rightarrow> int option \<Rightarrow> string option \<Rightarrow> string option \<Rightarrow> string option
     \<Rightarrow> string option \<Rightarrow> db \<Rightarrow> model_with_provider envelope response \<times> db" where
  "getAllModels_ctl errors page limit search name provider license =
     validate errors (\<lambda>d.
       case getAllModels page limit search name provider license d of
         Inr result \<Rightarrow> (respond 200 (Json result), d)
       | Inl error \<Rightarrow> (globalErrorHandler error, d))"

definition getAllUsers_ctl ::
  "verr list \<Rightarrow> int option \<Rightarrow> int option \<Rightarrow> string option \<Rightarrow> db
     \<Rightarrow> Evaluator envelope response \<times> db" where
  "getAllUsers_ctl errors page limit search =
     validate errors (\<lambda>d.
       case getAllEvaluators page limit search d of
         Inr result \<Rightarrow> (respond 200 (Json result), d)
       | Inl error \<Rightarrow> (globalErrorHandler error, d))"

definition getAllLLMPrompts_ctl ::
  "verr list \<Rightarrow> int option \<Rightarrow> int option \<Rightarrow> string option \<Rightarrow> string option \<Rightarrow> db
     \<Rightarrow> LLMPrompt envelope response \<times> db" where
  "getAllLLMPrompts_ctl errors page limit model_id prompt_id =
     validate_llmPrompt errors (\<lambda>d.
       case getAllLLMPrompts page limit model_id prompt_id d of
         Inr result \<Rightarrow> (respond 200 (Json result), d)
       | Inl error \<Rightarrow> (globalErrorHandler error, d))"

definition getAllUserPrompts_ctl ::
  "verr list \<Rightarrow> int option \<Rightarrow> int option \<Rightarrow> string option \<Rightarrow> string option \<Rightarrow> db
     \<Rightarrow> user_prompt_full envelope response \<times> db" where
  "getAllUserPrompts_ctl errors page limit user_id prompt_id =
     validate_userPrompt errors (\<lambda>d.
       case getAllUserPrompts page limit user_id prompt_id d of
         Inr result \<Rightarrow> (respond 200 (Json result), d)
       | Inl error \<Rightarrow> (globalErrorHandler error, d))"


section \<open>Providers: read, update, delete\<close>

text \<open>\<^verbatim>\<open>x || null\<close> on an optional string: missing and empty both give \<^verbatim>\<open>null\<close>.\<close>

definition or_null :: "string option \<Rightarrow> string option" where
  "or_null v = (case v of None \<Rightarrow> None | Some s \<Rightarrow> if s = [] then None else Some s)"

definition getProviderById :: "uuid \<Rightarrow> db \<Rightarrow> js_error + LLMProvider option" where
  "getProviderById i d = Inr (findByPk pv_id i (llm_provider d))"

definition getProviderById_ctl ::
  "verr list \<Rightarrow> uuid \<Rightarrow> db \<Rightarrow> LLMProvider response \<times> db" where
  "getProviderById_ctl errors i =
     validate errors (\<lambda>d.
       case getProviderById i d of
         Inr None \<Rightarrow> (respond 404 (Message ''Provider not found''), d)
       | Inr (Some provider) \<Rightarrow> (respond 200 (Json provider), d)
       | Inl error \<Rightarrow> (globalErrorHandler error, d))"

text \<open>
  The \<^verbatim>\<open>updateData\<close> object of the provider service: a key that is absent is \<open>None\<close>; the
  key \<^verbatim>\<open>country\<close> may be present with the value \<^verbatim>\<open>null\<close> (\<open>Some None\<close>).
\<close>

record provider_update =
  u_name :: "string option"
  u_hf_link :: "string option"
  u_country :: "string option option"

text \<open>\<^verbatim>\<open>instance.update(values)\<close>: the keys that are present are written, the others kept.\<close>

definition LLMProvider_update :: "provider_update \<Rightarrow> LLMProvider \<Rightarrow> LLMProvider" where
  "LLMProvider_update u p =
     p\<lparr>pv_name := default_to (pv_name p) (u_name u),
       pv_hf_link := default_to (pv_hf_link p) (u_hf_link u),
       pv_country := default_to (pv_country p) (u_country u)\<rparr>"

definition updateProvider ::
  "uuid \<Rightarrow> provider_update \<Rightarrow> db \<Rightarrow> (js_error + LLMProvider option) \<times> db" where
  "updateProvider i updateData d =
     (case findByPk pv_id i (llm_provider d) of
        None \<Rightarrow> (Inr None, d)
      | Some provider \<Rightarrow>
          (let updatedProvider = LLMProvider_update updateData provider
           in (Inr (Some updatedProvider),
               d\<lparr>llm_provider :=
                   map (\<lambda>r. if pv_id r = i then updatedProvider else r) (llm_provider d)\<rparr>)))"

text \<open>
  The body of a provider request once \<^verbatim>\<open>providerValidationRules\<close> have passed: name and
  link are strings, the country may be missing.
\<close>

record provider_body =
  b_name :: string
  b_hf_link :: string
  b_country :: "string option"

definition updateProvider_ctl ::
  "verr list \<Rightarrow> uuid \<Rightarrow> provider_body \<Rightarrow> db \<Rightarrow> LLMProvider response \<times> db" where
  "updateProvider_ctl errors i b =
     validate errors (\<lambda>d.
       let updateData = \<lparr>u_name = Some (b_name b), u_hf_link = Some (b_hf_link b),
                         u_country = Some (or_null (b_country b))\<rparr>
       in case updateProvider i updateData d of
            (Inr None, d') \<Rightarrow> (respond 404 (Message ''Provider not found''), d')
          | (Inr (Some updatedProvider), d') \<Rightarrow> (respond 200 (Json updatedProvider), d')
          | (Inl error, d') \<Rightarrow>
              if str_includes (err_message error) ''Validation Error''
              then (respond 400 (Message (err_message error)), d')
              else (globalErrorHandler error, d'))"

text \<open>
  \<^verbatim>\<open>provider.destroy()\<close>.  The schema's restrict-on-delete foreign keys
  \<^verbatim>\<open>fk_llm_model_provider\<close> and \<^verbatim>\<open>fk_provider_metric_provider\<close> make the database reject the
  delete while a model or a provider metric refers to the row.
\<close>

definition LLMProvider_destroy :: "LLMProvider \<Rightarrow> db \<Rightarrow> js_error + db" where
  "LLMProvider_destroy p d =
     (if pv_id p \<in> set (map md_provider (llm_model d)) \<or> pv_id p \<in> set (provider_metric d)
      then Inl (SequelizeForeignKeyConstraintError
                  ''update or delete on table llm_provider violates foreign key constraint'')
      else Inr (d\<lparr>llm_provider := filter (\<lambda>r. pv_id r \<noteq> pv_id p) (llm_provider d)\<rparr>))"

definition deleteProvider :: "uuid \<Rightarrow> db \<Rightarrow> (js_error + bool) \<times> db" where
  "deleteProvider i d =
     (case findByPk pv_id i (llm_provider d) of
        None \<Rightarrow> (Inr False, d)
      | Some provider \<Rightarrow>
          (case LLMProvider_destroy provider d of
             Inr d' \<Rightarrow> (Inr True, d')
           | Inl (SequelizeForeignKeyConstraintError m) \<Rightarrow>
               (Inl (Error ''Cannot delete provider because it is referenced by other records.''), d)
           | Inl error \<Rightarrow> (Inl (Error ''Could not delete provider''), d)))"

definition deleteProvider_ctl :: "verr list \<Rightarrow> uuid \<Rightarrow> db \<Rightarrow> unit response \<times> db" where
  "deleteProvider_ctl errors i =
     validate errors (\<lambda>d.
       case deleteProvider i d of
         (Inr deleted, d') \<Rightarrow>
           if \<not> deleted then (respond 404 (Message ''Provider not found''), d')
           else (respond 204 NoContent, d')
       | (Inl error, d') \<Rightarrow>
           if str_includes (err_message error) ''referenced by other records''
           then (respond 400 (Message (err_message error)), d')
           else (globalErrorHandler error, d'))"

section \<open>Models: read, create, delete\<close>

definition getModelById :: "uuid \<Rightarrow> db \<Rightarrow> js_error + model_with_provider option" where
  "getModelById i d = Inr (map_option (include_llmProvider d) (findByPk md_id i (llm_model d)))"

text \<open>
  \<^verbatim>\<open>llmModelController.js\<close> requires the service and the validation library and nothing
  else: the name \<^verbatim>\<open>createError\<close> is bound nowhere in that module.  Evaluating
  \<^verbatim>\<open>createError(404, 'Model not found')\<close> there raises a \<^verbatim>\<open>ReferenceError\<close> (\<open>Inl\<close>) inside the
  handler's \<^verbatim>\<open>try\<close> block.  In \<^verbatim>\<open>llmModelService.js\<close> the name is bound to the
  \<^verbatim>\<open>http-errors\<close> constructor.
\<close>

definition controller_createError :: "int \<Rightarrow> string \<Rightarrow> js_error + js_error" where
  "controller_createError code msg = Inl (ReferenceError ''createError is not defined'')"

definition createError :: "int \<Rightarrow> string \<Rightarrow> js_error" where
  "createError code msg = HttpError code msg"

text \<open>
  \<^verbatim>\<open>return next(createError(404, 'Model not found'))\<close> inside \<^verbatim>\<open>try { } catch (error) { next(error) }\<close>:
  whichever error results reaches the global handler.
\<close>

definition next_createError :: "int \<Rightarrow> string \<Rightarrow> 'a response" where
  "next_createError code msg =
     (case controller_createError code msg of
        Inr e \<Rightarrow> globalErrorHandler e
      | Inl thrown \<Rightarrow> globalErrorHandler thrown)"

definition getModelById_ctl ::
  "verr list \<Rightarrow> uuid \<Rightarrow> db \<Rightarrow> model_with_provider response \<times> db" where
  "getModelById_ctl errors i =
     validate errors (\<lambda>d.
       case getModelById i d of
         Inr None \<Rightarrow> (next_createError 404 ''Model not found'', d)
       | Inr (Some model) \<Rightarrow> (respond 200 (Json model), d)
       | Inl error \<Rightarrow> (globalErrorHandler error, d))"

text \<open>
  The body of a create-model request once \<^verbatim>\<open>modelBodyValidationRules\<close> have passed and
  sanitised it.
\<close>

record model_data =
  new_name :: string
  new_hf_link :: string
  new_description :: "string option"
  new_provider :: uuid
  new_license :: "string option"
  new_version :: string
  new_param_count :: int
  new_top_p :: "rat option"
  new_temperature :: "rat option"
  new_min_tokens :: "int option"
  new_max_tokens :: "int option"
  new_context_window :: int

definition int4_ok :: "int \<Rightarrow> bool" where
  "int4_ok n \<longleftrightarrow> - 2147483648 \<le> n \<and> n \<le> 2147483647"

definition int2_ok :: "int \<Rightarrow> bool" where
  "int2_ok n \<longleftrightarrow> - 32768 \<le> n \<and> n \<le> 32767"

definition int8_ok :: "int \<Rightarrow> bool" where
  "int8_ok n \<longleftrightarrow> - 9223372036854775808 \<le> n \<and> n \<le> 9223372036854775807"

text \<open>The \<^verbatim>\<open>validate: { min: k }\<close> entries of the model definition, checked before the insert.\<close>

definition min_violation :: "string \<Rightarrow> int \<Rightarrow> int option \<Rightarrow> string list" where
  "min_violation field k v =
     (case v of None \<Rightarrow> []
      | Some n \<Rightarrow> if n < k then [''Validation min on '' @ field @ '' failed''] else [])"

definition LLMModel_validate :: "model_data \<Rightarrow> string list" where
  "LLMModel_validate m =
     min_violation ''param_count'' 1 (Some (new_param_count m))
     @ min_violation ''min_tokens'' 0 (new_min_tokens m)
     @ min_violation ''max_tokens'' 1 (new_max_tokens m)
     @ min_violation ''context_window'' 1 (Some (new_context_window m))"

text \<open>
  The row an insert of \<open>modelData\<close> writes: \<open>new_id\<close> is the UUID generated for it, \<open>now\<close>
  the time of the insert, and a missing description takes the column default \<^verbatim>\<open>''\<close>.
\<close>

definition LLMModel_build :: "uuid \<Rightarrow> nat \<Rightarrow> model_data \<Rightarrow> LLMModel" where
  "LLMModel_build new_id now m =
     \<lparr>md_id = new_id, md_name = new_name m, md_hf_link = new_hf_link m,
      md_description = default_to [] (new_description m),
      md_provider = new_provider m, md_license = new_license m,
      md_version = new_version m, md_param_count = new_param_count m,
      md_top_p = new_top_p m, md_temperature = new_temperature m,
      md_min_tokens = new_min_tokens m, md_max_tokens = new_max_tokens m,
      md_context_window = new_context_window m, md_created_at = now\<rparr>"

text \<open>
  \<^verbatim>\<open>LLMModel.create(modelData)\<close>.  The insert fails on a model-level validation, on a
  number outside its column type, on a primary key that exists, and on a provider that
  does not.
\<close>

definition LLMModel_create :: "uuid \<Rightarrow> nat \<Rightarrow> model_data \<Rightarrow> db \<Rightarrow> js_error + (LLMModel \<times> db)" where
  "LLMModel_create new_id now m d =
     (if LLMModel_validate m \<noteq> [] then Inl (SequelizeValidationError (LLMModel_validate m))
      else if \<not> (int8_ok (new_param_count m) \<and> int4_ok (new_context_window m)
                 \<and> int4_ok (default_to 0 (new_min_tokens m))
                 \<and> int4_ok (default_to 0 (new_max_tokens m)))
      then Inl (SequelizeDatabaseError ''value out of range'')
      else if new_id \<in> set (map md_id (llm_model d))
      then Inl (SequelizeUniqueConstraintError [(''id'', new_id)] [''id must be unique''])
      else if new_provider m \<notin> set (map pv_id (llm_provider d))
      then Inl (SequelizeForeignKeyConstraintError
                  ''insert or update on table llm_model violates foreign key constraint'')
      else
        (let row = LLMModel_build new_id now m
         in Inr (row, d\<lparr>llm_model := llm_model d @ [row]\<rparr>)))"

text \<open>The \<^verbatim>\<open>catch\<close> block of \<^verbatim>\<open>createModel\<close>.\<close>

fun createModel_catch :: "js_error \<Rightarrow> js_error" where
  "createModel_catch (HttpError code msg) = HttpError code msg"
| "createModel_catch (SequelizeValidationError ms) =
     createError 400 (''Validation Error: '' @ join_comma ms)"
| "createModel_catch (SequelizeUniqueConstraintError fs ms) =
     createError 400 (''Validation Error: '' @ join_comma ms)"
| "createModel_catch error = createError 500 ''Error creating model in database''"

definition createModel ::
  "uuid \<Rightarrow> nat \<Rightarrow> model_data \<Rightarrow> db \<Rightarrow> (js_error + model_with_provider option) \<times> db" where
  "createModel new_id now modelData d =
     (case findByPk pv_id (new_provider modelData) (llm_provider d) of
        None \<Rightarrow>
          (Inl (createModel_catch
                  (createError 400
                     (''Provider with ID '' @ new_provider modelData @ '' not found.''))), d)
      | Some providerExists \<Rightarrow>
          (case LLMModel_create new_id now modelData d of
             Inl error \<Rightarrow> (Inl (createModel_catch error), d)
           | Inr (newModel, d') \<Rightarrow>
               (case getModelById (md_id newModel) d' of
                  Inl error \<Rightarrow> (Inl (createModel_catch error), d')
                | Inr model \<Rightarrow> (Inr model, d'))))"

definition createModel_ctl ::
  "verr list \<Rightarrow> uuid \<Rightarrow> nat \<Rightarrow> model_data \<Rightarrow> db \<Rightarrow> model_with_provider option response \<times> db" where
  "createModel_ctl errors new_id now modelData =
     validate errors (\<lambda>d.
       case createModel new_id now modelData d of
         (Inr newModel, d') \<Rightarrow> (respond 201 (Json newModel), d')
       | (Inl error, d') \<Rightarrow> (globalErrorHandler error, d'))"

text \<open>
  \<^verbatim>\<open>model.destroy()\<close>: rejected while a model-prompt association, a response or a model
  metric refers to the model.
\<close>

definition LLMModel_destroy :: "LLMModel \<Rightarrow> db \<Rightarrow> js_error + db" where
  "LLMModel_destroy m d =
     (if md_id m \<in> set (map lp_model_id (llm_prompt d)) \<or> md_id m \<in> set (llm_response d)
         \<or> md_id m \<in> set (model_metric d)
      then Inl (SequelizeForeignKeyConstraintError
                  ''update or delete on table llm_model violates foreign key constraint'')
      else Inr (d\<lparr>llm_model := filter (\<lambda>r. md_id r \<noteq> md_id m) (llm_model d)\<rparr>))"

definition deleteModel :: "uuid \<Rightarrow> db \<Rightarrow> (js_error + bool) \<times> db" where
  "deleteModel i d =
     (case findByPk md_id i (llm_model d) of
        None \<Rightarrow> (Inr False, d)
      | Some model \<Rightarrow>
          (case LLMModel_destroy model d of
             Inr d' \<Rightarrow> (Inr True, d')
           | Inl (SequelizeForeignKeyConstraintError m) \<Rightarrow>
               (Inl (createError 400 (''Cannot delete model: it is referenced by other records ''
                      @ ''(e.g., responses, prompts). You may need to delete associated records first.'')),
                d)
           | Inl error \<Rightarrow> (Inl (createError 500 ''Error deleting model from database''), d)))"

definition deleteModel_ctl :: "verr list \<Rightarrow> uuid \<Rightarrow> db \<Rightarrow> unit response \<times> db" where
  "deleteModel_ctl errors i =
     validate errors (\<lambda>d.
       case deleteModel i d of
         (Inr deleted, d') \<Rightarrow>
           if \<not> deleted then (next_createError 404 ''Model not found'', d')
           else (respond 204 NoContent, d')
       | (Inl error, d') \<Rightarrow> (globalErrorHandler error, d'))"

section \<open>Model-prompt associations: create\<close>

text \<open>Decimal text of an integer, as it appears in \<^verbatim>\<open>error.fields\<close>.\<close>

definition digit_char :: "nat \<Rightarrow> char" where
  "digit_char n = (case n of 0 \<Rightarrow> CHR ''0'' | Suc 0 \<Rightarrow> CHR ''1'' | Suc (Suc 0) \<Rightarrow> CHR ''2''
     | Suc (Suc (Suc 0)) \<Rightarrow> CHR ''3'' | Suc (Suc (Suc (Suc 0))) \<Rightarrow> CHR ''4''
     | Suc (Suc (Suc (Suc (Suc 0)))) \<Rightarrow> CHR ''5''
     | Suc (Suc (Suc (Suc (Suc (Suc 0))))) \<Rightarrow> CHR ''6''
     | Suc (Suc (Suc (Suc (Suc (Suc (Suc 0)))))) \<Rightarrow> CHR ''7''
     | Suc (Suc (Suc (Suc (Suc (Suc (Suc (Suc 0))))))) \<Rightarrow> CHR ''8''
     | _ \<Rightarrow> CHR ''9'')"

function show_nat :: "nat \<Rightarrow> string" where
  "show_nat n = (if n < 10 then [digit_char n] else show_nat (n div 10) @ [digit_char (n mod 10)])"
  by pat_completeness auto
termination
  by (relation "measure id") auto

declare show_nat.simps [simp del]

definition show_int :: "int \<Rightarrow> string" where
  "show_int i = (if i < 0 then CHR ''-'' # show_nat (nat (- i)) else show_nat (nat i))"

text \<open>\<^verbatim>\<open>error.fields.k\<close> as a condition: the key is there and its text is not empty.\<close>

definition field_truthy :: "(string \<times> string) list \<Rightarrow> string \<Rightarrow> bool" where
  "field_truthy fs k = (case map_of fs k of None \<Rightarrow> False | Some v \<Rightarrow> v \<noteq> [])"

record llm_prompt_data =
  a_model_id :: uuid
  a_prompt_id :: uuid
  a_order :: "int option"

text \<open>
  \<^verbatim>\<open>LLMPrompt.create(data)\<close> against the table of \<^verbatim>\<open>schema.sql\<close>: \<^verbatim>\<open>"order" SMALLINT\<close>,
  \<^verbatim>\<open>PRIMARY KEY (model_id, prompt_id)\<close>, \<^verbatim>\<open>UNIQUE (model_id, "order")\<close> (rows without an
  order never collide) and the two restrict foreign keys.  The unique indexes are checked
  as the row is inserted, the primary key first; the foreign keys after them.
\<close>

definition LLMPrompt_build :: "nat \<Rightarrow> llm_prompt_data \<Rightarrow> LLMPrompt" where
  "LLMPrompt_build now a =
     \<lparr>lp_model_id = a_model_id a, lp_prompt_id = a_prompt_id a,
      lp_order = a_order a, lp_created_at = now\<rparr>"

definition LLMPrompt_create :: "nat \<Rightarrow> llm_prompt_data \<Rightarrow> db \<Rightarrow> js_error + (LLMPrompt \<times> db)" where
  "LLMPrompt_create now a d =
     (if \<not> int2_ok (default_to 0 (a_order a))
      then Inl (SequelizeDatabaseError ''smallint out of range'')
      else if (a_model_id a, a_prompt_id a) \<in> set (map (\<lambda>r. (lp_model_id r, lp_prompt_id r)) (llm_prompt d))
      then Inl (SequelizeUniqueConstraintError
                  [(''model_id'', a_model_id a), (''prompt_id'', a_prompt_id a)]
                  [''model_id must be unique'', ''prompt_id must be unique''])
      else if a_order a \<noteq> None
              \<and> (a_model_id a, a_order a) \<in> set (map (\<lambda>r. (lp_model_id r, lp_order r)) (llm_prompt d))
      then Inl (SequelizeUniqueConstraintError
                  [(''model_id'', a_model_id a), (''order'', show_int (default_to 0 (a_order a)))]
                  [''model_id must be unique'', ''order must be unique''])
      else if a_model_id a \<notin> set (map md_id (llm_model d))
              \<or> a_prompt_id a \<notin> set (map pr_id (prompt d))
      then Inl (SequelizeForeignKeyConstraintError
                  ''insert or update on table llm_prompt violates foreign key constraint'')
      else
        (let row = LLMPrompt_build now a
         in Inr (row, d\<lparr>llm_prompt := llm_prompt d @ [row]\<rparr>)))"

text \<open>The \<^verbatim>\<open>catch\<close> block of \<^verbatim>\<open>createLLMPrompt\<close>.\<close>

fun createLLMPrompt_catch :: "js_error \<Rightarrow> js_error" where
  "createLLMPrompt_catch (SequelizeUniqueConstraintError fs ms) =
     (if field_truthy fs ''model_id'' \<and> field_truthy fs ''prompt_id''
      then Error ''This model-prompt association already exists.''
      else if field_truthy fs ''model_id'' \<and> field_truthy fs ''order''
      then Error ''This order value is already used for the specified model.''
      else Error ''A unique constraint was violated.'')"
| "createLLMPrompt_catch (SequelizeForeignKeyConstraintError m) =
     Error ''Invalid model_id or prompt_id provided.''"
| "createLLMPrompt_catch (SequelizeValidationError ms) =
     Error (''Validation Error: '' @ join_comma ms)"
| "createLLMPrompt_catch error = Error ''Could not create LLM prompt association''"

definition createLLMPrompt :: "nat \<Rightarrow> llm_prompt_data \<Rightarrow> db \<Rightarrow> (js_error + LLMPrompt) \<times> db" where
  "createLLMPrompt now a d =
     (case LLMPrompt_create now a d of
        Inr (newLLMPrompt, d') \<Rightarrow> (Inr newLLMPrompt, d')
      | Inl error \<Rightarrow> (Inl (createLLMPrompt_catch error), d))"

text \<open>
  The handler takes \<^verbatim>\<open>model_id\<close>, \<^verbatim>\<open>prompt_id\<close> and \<^verbatim>\<open>order\<close> from the body; an order that is
  missing or \<^verbatim>\<open>null\<close> is \<open>None\<close>.
\<close>

definition createLLMPrompt_ctl ::
  "verr list \<Rightarrow> nat \<Rightarrow> llm_prompt_data \<Rightarrow> db \<Rightarrow> LLMPrompt response \<times> db" where
  "createLLMPrompt_ctl errors now a =
     validate_llmPrompt errors (\<lambda>d.
       case createLLMPrompt now a d of
         (Inr newLLMPrompt, d') \<Rightarrow> (respond 201 (Json newLLMPrompt), d')
       | (Inl error, d') \<Rightarrow>
           if str_includes (err_message error) ''already exists''
              \<or> str_includes (err_message error) ''Invalid model_id or prompt_id''
              \<or> str_includes (err_message error) ''already used for the specified model''
              \<or> str_includes (err_message error) ''Validation Error''
           then (respond 400 (StatusMessage (err_message error)), d')
           else (globalErrorHandler error, d'))"

section \<open>Prompts: create and update\<close>

text \<open>
  The prompt controller has no rule chains and no service: it reads the raw JSON body,
  checks it with its own \<^verbatim>\<open>if\<close>s and calls the model.  A JSON scalar is a \<open>jsvalue\<close> (the
  numbers that matter are integers).  In the body, \<^verbatim>\<open>prompt\<close> is a string or missing,
  \<^verbatim>\<open>prompt_tokens\<close> any scalar or missing, \<^verbatim>\<open>description\<close> a string, \<^verbatim>\<open>null\<close> (\<open>Some None\<close>)
  or missing.
\<close>

datatype jsvalue = JNumber int | JString string | JBool bool | JNull

record prompt_body =
  b_prompt :: "string option"
  b_prompt_tokens :: "jsvalue option"
  b_description :: "string option option"

text \<open>\<^verbatim>\<open>typeof v !== 'number' || v <= 0\<close>\<close>

fun not_positive_number :: "jsvalue \<Rightarrow> bool" where
  "not_positive_number (JNumber n) = (n \<le> 0)"
| "not_positive_number v = True"

fun number_of :: "jsvalue \<Rightarrow> int" where
  "number_of (JNumber n) = n"
| "number_of v = 0"

text \<open>\<^verbatim>\<open>description || null\<close>\<close>

definition description_or_null :: "string option option \<Rightarrow> string option" where
  "description_or_null v = (case v of None \<Rightarrow> None | Some x \<Rightarrow> or_null x)"

text \<open>
  \<^verbatim>\<open>Prompt.create(...)\<close>: the model's \<^verbatim>\<open>min: 1\<close> on the token count, the \<^verbatim>\<open>INTEGER\<close> column and
  the primary key.
\<close>

definition Prompt_create ::
  "uuid \<Rightarrow> nat \<Rightarrow> string \<Rightarrow> int \<Rightarrow> string option \<Rightarrow> db \<Rightarrow> js_error + (Prompt \<times> db)" where
  "Prompt_create new_id now text tokens description d =
     (if tokens < 1 then Inl (SequelizeValidationError [''Validation min on prompt_tokens failed''])
      else if \<not> int4_ok tokens then Inl (SequelizeDatabaseError ''value out of range'')
      else if new_id \<in> set (map pr_id (prompt d))
      then Inl (SequelizeUniqueConstraintError [(''id'', new_id)] [''id must be unique''])
      else
        (let row = \<lparr>pr_id = new_id, pr_prompt = text, pr_prompt_tokens = tokens,
                     pr_description = description, pr_created_at = now\<rparr>
         in Inr (row, d\<lparr>prompt := prompt d @ [row]\<rparr>)))"

definition createPrompt :: "uuid \<Rightarrow> nat \<Rightarrow> prompt_body \<Rightarrow> db \<Rightarrow> Prompt response \<times> db" where
  "createPrompt new_id now b d =
     (if b_prompt b = None \<or> b_prompt b = Some [] \<or> b_prompt_tokens b = None
      then (respond 400 (Message ''Missing required fields: prompt and prompt_tokens''), d)
      else if not_positive_number (default_to JNull (b_prompt_tokens b))
      then (respond 400 (Message ''prompt_tokens must be a positive number''), d)
      else
        (case Prompt_create new_id now (default_to [] (b_prompt b))
                (number_of (default_to JNull (b_prompt_tokens b)))
                (description_or_null (b_description b)) d of
           Inr (newPrompt, d') \<Rightarrow> (respond 201 (Json newPrompt), d')
         | Inl (SequelizeValidationError ms) \<Rightarrow> (respond 400 (Message (join_comma ms)), d)
         | Inl err \<Rightarrow> (globalErrorHandler err, d)))"



subsection \<open>Listing prompts\<close>



section \<open>Evaluators and prompts: delete\<close>

text \<open>
  \<^verbatim>\<open>evaluator.destroy()\<close>: rejected while a user-prompt association, a feedback, a score or
  a tag refers to the evaluator.
\<close>

definition Evaluator_destroy :: "Evaluator \<Rightarrow> db \<Rightarrow> js_error + db" where
  "Evaluator_destroy e d =
     (if ev_id e \<in> set (map up_user_id (user_prompt d)) \<or> ev_id e \<in> set (feedback d)
         \<or> ev_id e \<in> set (score d) \<or> ev_id e \<in> set (tag d)
      then Inl (SequelizeForeignKeyConstraintError
                  ''update or delete on table evaluator violates foreign key constraint'')
      else Inr (d\<lparr>evaluator := filter (\<lambda>r. ev_id r \<noteq> ev_id e) (evaluator d)\<rparr>))"

definition deleteEvaluator :: "uuid \<Rightarrow> db \<Rightarrow> (js_error + bool) \<times> db" where
  "deleteEvaluator i d =
     (case findByPk ev_id i (evaluator d) of
        None \<Rightarrow> (Inr False, d)
      | Some found \<Rightarrow>
          (case Evaluator_destroy found d of
             Inr d' \<Rightarrow> (Inr True, d')
           | Inl (SequelizeForeignKeyConstraintError m) \<Rightarrow>
               (Inl (Error ''Cannot delete evaluator because it is referenced by other records.''), d)
           | Inl error \<Rightarrow> (Inl (Error ''Could not delete evaluator''), d)))"

definition deleteUser_ctl :: "verr list \<Rightarrow> uuid \<Rightarrow> db \<Rightarrow> unit response \<times> db" where
  "deleteUser_ctl errors i =
     validate errors (\<lambda>d.
       case deleteEvaluator i d of
         (Inr deleted, d') \<Rightarrow>
           if \<not> deleted then (respond 404 (Message ''User not found''), d')
           else (respond 204 NoContent, d')
       | (Inl error, d') \<Rightarrow>
           if str_includes (err_message error) ''referenced by other records''
           then (respond 400 (Message (err_message error)), d')
           else (globalErrorHandler error, d'))"

definition getEvaluatorById :: "uuid \<Rightarrow> db \<Rightarrow> js_error + Evaluator option" where
  "getEvaluatorById i d = Inr (findByPk ev_id i (evaluator d))"

definition getUserById_ctl :: "verr list \<Rightarrow> uuid \<Rightarrow> db \<Rightarrow> Evaluator response \<times> db" where
  "getUserById_ctl errors i =
     validate errors (\<lambda>d.
       case getEvaluatorById i d of
         Inr None \<Rightarrow> (respond 404 (Message ''User not found''), d)
       | Inr (Some user) \<Rightarrow> (respond 200 (Json user), d)
       | Inl error \<Rightarrow> (globalErrorHandler error, d))"




section \<open>Model-prompt and user-prompt associations: delete\<close>

text \<open>No table refers to an association row, so its delete is never rejected.\<close>

definition findOne_llm_prompt :: "uuid \<Rightarrow> uuid \<Rightarrow> db \<Rightarrow> LLMPrompt option" where
  "findOne_llm_prompt model_id prompt_id d =
     find (\<lambda>r. lp_model_id r = model_id \<and> lp_prompt_id r = prompt_id) (llm_prompt d)"

definition deleteLLMPrompt :: "uuid \<Rightarrow> uuid \<Rightarrow> db \<Rightarrow> (js_error + bool) \<times> db" where
  "deleteLLMPrompt model_id prompt_id d =
     (case findOne_llm_prompt model_id prompt_id d of
        None \<Rightarrow> (Inr False, d)
      | Some llmPrompt \<Rightarrow>
          (Inr True,
           d\<lparr>llm_prompt :=
               filter (\<lambda>r. \<not> (lp_model_id r = model_id \<and> lp_prompt_id r = prompt_id))
                 (llm_prompt d)\<rparr>))"

definition deleteLLMPrompt_ctl :: "verr list \<Rightarrow> uuid \<Rightarrow> uuid \<Rightarrow> db \<Rightarrow> unit response \<times> db" where
  "deleteLLMPrompt_ctl errors model_id prompt_id =
     validate_llmPrompt errors (\<lambda>d.
       case deleteLLMPrompt model_id prompt_id d of
         (Inr deleted, d') \<Rightarrow>
           if \<not> deleted
           then (respond 404 (StatusMessage ''LLM-Prompt association not found''), d')
           else (respond 204 NoContent, d')
       | (Inl error, d') \<Rightarrow> (globalErrorHandler error, d'))"

definition findOne_user_prompt :: "uuid \<Rightarrow> uuid \<Rightarrow> db \<Rightarrow> UserPrompt option" where
  "findOne_user_prompt userId promptId d =
     find (\<lambda>r. up_user_id r = userId \<and> up_prompt_id r = promptId) (user_prompt d)"

definition deleteUserPrompt :: "uuid \<Rightarrow> uuid \<Rightarrow> db \<Rightarrow> (js_error + bool) \<times> db" where
  "deleteUserPrompt userId promptId d =
     (case findOne_user_prompt userId promptId d of
        None \<Rightarrow> (Inr False, d)
      | Some association \<Rightarrow>
          (Inr True,
           d\<lparr>user_prompt :=
               filter (\<lambda>r. \<not> (up_user_id r = userId \<and> up_prompt_id r = promptId))
                 (user_prompt d)\<rparr>))"

definition deleteUserPrompt_ctl :: "verr list \<Rightarrow> uuid \<Rightarrow> uuid \<Rightarrow> db \<Rightarrow> unit response \<times> db" where
  "deleteUserPrompt_ctl errors userId promptId =
     validate_userPrompt errors (\<lambda>d.
       case deleteUserPrompt userId promptId d of
         (Inr deleted, d') \<Rightarrow>
           if \<not> deleted
           then (respond 404 (Message ''User-Prompt association not found''), d')
           else (respond 204 NoContent, d')
       | (Inl error, d') \<Rightarrow> (globalErrorHandler error, d'))"

section \<open>Example data\<close>

definition provider_openai :: LLMProvider where
  "provider_openai = \<lparr>pv_id = ''d290f1ee-6c54-4b01-90e6-d701748f0851'', pv_name = ''OpenAI'',
     pv_hf_link = ''https://huggingface.co/openai'', pv_country = Some ''USA'',
     pv_created_at = 1\<rparr>"

definition provider_cohere :: LLMProvider where
  "provider_cohere = \<lparr>pv_id = ''7c9e6679-7425-40de-944b-e07fc1f90ae7'', pv_name = ''Cohere'',
     pv_hf_link = ''https://huggingface.co/Cohere'', pv_country = Some ''Canada'',
     pv_created_at = 2\<rparr>"

definition model_gpt :: LLMModel where
  "model_gpt = \<lparr>md_id = ''3f2504e0-4f89-41d3-9a0c-0305e82c3301'', md_name = ''GPT'',
     md_hf_link = ''https://huggingface.co/openai/gpt'', md_description = [],
     md_provider = ''d290f1ee-6c54-4b01-90e6-d701748f0851'', md_license = None,
     md_version = ''1'', md_param_count = 1000, md_top_p = None, md_temperature = None,
     md_min_tokens = None, md_max_tokens = None, md_context_window = 2048,
     md_created_at = 3\<rparr>"

definition prompt_hello :: Prompt where
  "prompt_hello = \<lparr>pr_id = ''0b2f8a34-5d1c-4e6f-8a7b-9c0d1e2f3a4b'', pr_prompt = ''Say hello'',
     pr_prompt_tokens = 2, pr_description = Some ''greeting'', pr_created_at = 4\<rparr>"

definition prompt_bye :: Prompt where
  "prompt_bye = \<lparr>pr_id = ''1c3a9b45-6e2d-4f70-9b8c-ad1e2f3a4b5c'', pr_prompt = ''Say bye'',
     pr_prompt_tokens = 2, pr_description = None, pr_created_at = 5\<rparr>"

definition example_db :: db where
  "example_db = \<lparr>llm_provider = [provider_openai, provider_cohere], llm_model = [model_gpt],
     prompt = [prompt_hello, prompt_bye], llm_prompt = [], evaluator = [], user_prompt = [],
     provider_metric = [], llm_response = [], model_metric = [],
     feedback = [], score = [], tag = []\<rparr>"

definition model_data_example :: model_data where
  "model_data_example = \<lparr>new_name = ''Command'', new_hf_link = ''https://huggingface.co/Cohere/command'',
     new_description = None, new_provider = ''7c9e6679-7425-40de-944b-e07fc1f90ae7'',
     new_license = None, new_version = ''1'', new_param_count = 52, new_top_p = None,
     new_temperature = None, new_min_tokens = None, new_max_tokens = None,
     new_context_window = 4096\<rparr>"

definition association_first :: llm_prompt_data where
  "association_first = \<lparr>a_model_id = ''3f2504e0-4f89-41d3-9a0c-0305e82c3301'',
     a_prompt_id = ''0b2f8a34-5d1c-4e6f-8a7b-9c0d1e2f3a4b'', a_order = Some 1\<rparr>"

definition association_second :: llm_prompt_data where
  "association_second = \<lparr>a_model_id = ''3f2504e0-4f89-41d3-9a0c-0305e82c3301'',
     a_prompt_id = ''1c3a9b45-6e2d-4f70-9b8c-ad1e2f3a4b5c'', a_order = Some 1\<rparr>"

section \<open>The pagination contract\<close>


definition selected_models ::
  "string option \<Rightarrow> string option \<Rightarrow> string option \<Rightarrow> string option \<Rightarrow> db \<Rightarrow> model_with_provider list" where
  "selected_models search name provider license d =
     map (include_llmProvider d)
       (order_asc md_name
          (filter (satisfies col_model (models_where search name provider license)) (llm_model d)))"

definition selected_evaluators :: "string option \<Rightarrow> db \<Rightarrow> Evaluator list" where
  "selected_evaluators search d =
     order_asc ev_name (filter (satisfies col_evaluator (evaluators_where search)) (evaluator d))"


definition selected_user_prompts :: "string option \<Rightarrow> string option \<Rightarrow> db \<Rightarrow> user_prompt_full list" where
  "selected_user_prompts user_id prompt_id d =
     map (include_evaluator_prompt d)
       (order_desc up_created_at
          (filter (satisfies col_user_prompt (user_prompts_where user_id prompt_id)) (user_prompt d)))"


text \<open>
  The envelope for page \<open>page\<close> of a collection at \<open>limit\<close> items per page: the total, the
  number of pages as the ceiling of the quotient, the page number, and the items from
  offset \<open>(page - 1) * limit\<close> on, at most \<open>limit\<close> of them.
\<close>

definition page_envelope :: "int \<Rightarrow> int \<Rightarrow> 'r list \<Rightarrow> 'r envelope \<Rightarrow> bool" where
  "page_envelope page limit selection env \<longleftrightarrow>
     totalItems env = length selection
     \<and> totalPages env = Num \<lceil>real (length selection) / real_of_int limit\<rceil>
     \<and> currentPage env = page
     \<and> int (length (items env)) \<le> limit
     \<and> items env = take (nat limit) (drop (nat ((page - 1) * limit)) selection)"


section \<open>Properties of the list services\<close>

lemma math_ceil_div_ceiling:
  "0 < limit \<Longrightarrow> math_ceil_div count limit = Num \<lceil>real count / real_of_int limit\<rceil>"
  using ceiling_divide_eq_div[of "int count" limit, where ?'a = real]
  by (simp add: math_ceil_div_def)

lemma findAndCountAll_ok:
  "0 \<le> limit \<Longrightarrow> 0 \<le> offset \<Longrightarrow>
   findAndCountAll wh ord limit offset t =
     Inr (length (filter wh t), take (nat limit) (drop (nat offset) (ord (filter wh t))))"
  by (simp add: findAndCountAll_def)

lemma length_order_asc [simp]: "length (order_asc k xs) = length xs"
  by (simp add: order_asc_def)

lemma length_order_desc [simp]: "length (order_desc k xs) = length xs"
  by (simp add: order_desc_def)


lemma models_page:
  assumes "1 \<le> page" "1 \<le> limit"
  shows "\<exists>env. getAllModels (Some page) (Some limit) search name provider license d = Inr env
           \<and> page_envelope page limit (selected_models search name provider license d) env"
  using assms
  by (simp add: getAllModels_def default_to_def findAndCountAll_ok
        math_ceil_div_ceiling page_envelope_def selected_models_def take_map drop_map)

lemma evaluators_page:
  assumes "1 \<le> page" "1 \<le> limit"
  shows "\<exists>env. getAllEvaluators (Some page) (Some limit) search d = Inr env
           \<and> page_envelope page limit (selected_evaluators search d) env"
  using assms
  by (simp add: getAllEvaluators_def getOffset_def default_to_def findAndCountAll_ok
        math_ceil_div_ceiling page_envelope_def selected_evaluators_def)


lemma user_prompts_page:
  assumes "1 \<le> page" "1 \<le> limit"
  shows "\<exists>env. getAllUserPrompts (Some page) (Some limit) user_id prompt_id d = Inr env
           \<and> page_envelope page limit (selected_user_prompts user_id prompt_id d) env"
  using assms
  by (simp add: getAllUserPrompts_def getOffset_def default_to_def findAndCountAll_ok
        math_ceil_div_ceiling page_envelope_def selected_user_prompts_def take_map drop_map)















lemma getAllProviders_defaults:
  "getAllProviders None limit search country d = getAllProviders (Some 1) limit search country d"
  "getAllProviders page None search country d = getAllProviders page (Some 10) search country d"
  by (simp_all add: getAllProviders_def default_to_def)

lemma getAllModels_defaults:
  "getAllModels None limit search name provider license d
     = getAllModels (Some 1) limit search name provider license d"
  "getAllModels page None search name provider license d
     = getAllModels page (Some 10) search name provider license d"
  by (simp_all add: getAllModels_def default_to_def)

lemma getAllEvaluators_defaults:
  "getAllEvaluators None limit search d = getAllEvaluators (Some 1) limit search d"
  "getAllEvaluators page None search d = getAllEvaluators page (Some 10) search d"
  by (simp_all add: getAllEvaluators_def default_to_def)

lemma getAllLLMPrompts_defaults:
  "getAllLLMPrompts None limit model_id prompt_id d
     = getAllLLMPrompts (Some 1) limit model_id prompt_id d"
  "getAllLLMPrompts page None model_id prompt_id d
     = getAllLLMPrompts page (Some 10) model_id prompt_id d"
  by (simp_all add: getAllLLMPrompts_def default_to_def)

lemma getAllUserPrompts_defaults:
  "getAllUserPrompts None limit user_id prompt_id d
     = getAllUserPrompts (Some 1) limit user_id prompt_id d"
  "getAllUserPrompts page None user_id prompt_id d
     = getAllUserPrompts page (Some 10) user_id prompt_id d"
  by (simp_all add: getAllUserPrompts_def default_to_def)

lemma first_page_of_ten:
  "page_envelope 1 10 sel env \<Longrightarrow>
     items env = take 10 sel \<and> length (items env) \<le> 10
     \<and> totalPages env = Num \<lceil>real (length sel) / 10\<rceil> \<and> currentPage env = 1"
  by (simp add: page_envelope_def)

text \<open>
  Claim C10.  A list service called without a page behaves as with page 1, and called
  without a limit as with limit 10; without both, the envelope holds the first ten items
  of the collection (offset 0), and \<open>totalPages\<close> is computed against 10.
\<close>

theorem omitted_page_and_limit_defaults:
  "getAllModels None limit search name provider license d
     = getAllModels (Some 1) limit search name provider license d
   \<and> getAllModels page None search name provider license d
     = getAllModels page (Some 10) search name provider license d
   \<and> getAllEvaluators None limit search d = getAllEvaluators (Some 1) limit search d
   \<and> getAllEvaluators page None search d = getAllEvaluators page (Some 10) search d
   \<and> getAllUserPrompts None limit user_id prompt_id d
     = getAllUserPrompts (Some 1) limit user_id prompt_id d
   \<and> getAllUserPrompts page None user_id prompt_id d
     = getAllUserPrompts page (Some 10) user_id prompt_id d
   \<and> getAllProviders None limit search country d = getAllProviders (Some 1) limit search country d
   \<and> getAllProviders page None search country d = getAllProviders page (Some 10) search country d
   \<and> getAllLLMPrompts None limit model_id prompt_id d
     = getAllLLMPrompts (Some 1) limit model_id prompt_id d
   \<and> getAllLLMPrompts page None model_id prompt_id d
     = getAllLLMPrompts page (Some 10) model_id prompt_id d
   \<and> (\<exists>env. getAllModels None None search name provider license d = Inr env
         \<and> items env = take 10 (selected_models search name provider license d)
         \<and> length (items env) \<le> 10
         \<and> totalPages env
               = Num \<lceil>real (length (selected_models search name provider license d)) / 10\<rceil>
         \<and> currentPage env = 1)
   \<and> (\<exists>env. getAllEvaluators None None search d = Inr env
         \<and> items env = take 10 (selected_evaluators search d)
         \<and> length (items env) \<le> 10
         \<and> totalPages env = Num \<lceil>real (length (selected_evaluators search d)) / 10\<rceil>
         \<and> currentPage env = 1)
   \<and> (\<exists>env. getAllUserPrompts None None user_id prompt_id d = Inr env
         \<and> items env = take 10 (selected_user_prompts user_id prompt_id d)
         \<and> length (items env) \<le> 10
         \<and> totalPages env
               = Num \<lceil>real (length (selected_user_prompts user_id prompt_id d)) / 10\<rceil>
         \<and> currentPage env = 1)"
proof -
  have m: "\<exists>env. getAllModels None None search name provider license d = Inr env
         \<and> items env = take 10 (selected_models search name provider license d)
         \<and> length (items env) \<le> 10
         \<and> totalPages env
               = Num \<lceil>real (length (selected_models search name provider license d)) / 10\<rceil>
         \<and> currentPage env = 1"
    using models_page[of 1 10 search name provider license d] first_page_of_ten
    by (fastforce simp add: getAllModels_defaults)
  have e: "\<exists>env. getAllEvaluators None None search d = Inr env
         \<and> items env = take 10 (selected_evaluators search d)
         \<and> length (items env) \<le> 10
         \<and> totalPages env = Num \<lceil>real (length (selected_evaluators search d)) / 10\<rceil>
         \<and> currentPage env = 1"
    using evaluators_page[of 1 10 search d] first_page_of_ten
    by (fastforce simp add: getAllEvaluators_defaults)
  have u: "\<exists>env. getAllUserPrompts None None user_id prompt_id d = Inr env
         \<and> items env = take 10 (selected_user_prompts user_id prompt_id d)
         \<and> length (items env) \<le> 10
         \<and> totalPages env
               = Num \<lceil>real (length (selected_user_prompts user_id prompt_id d)) / 10\<rceil>
         \<and> currentPage env = 1"
    using user_prompts_page[of 1 10 user_id prompt_id d] first_page_of_ten
    by (fastforce simp add: getAllUserPrompts_defaults)
  show ?thesis
    using m e u
    by (simp only: getAllModels_defaults getAllEvaluators_defaults getAllUserPrompts_defaults
          getAllProviders_defaults getAllLLMPrompts_defaults simp_thms)
qed

theorem omitted_page_and_limit_defaults_witness:
  "getAllProviders None None None None example_db
     = Inr \<lparr>totalItems = 2, totalPages = Num 1, currentPage = 1,
            items = [provider_cohere, provider_openai]\<rparr>"
proof -
  have "getAllProviders None None None None example_db
          = getAllProviders (Some 1) (Some 10) None None example_db"
    using omitted_page_and_limit_defaults [of "Some 10" None None None None example_db None None None None None]
      omitted_page_and_limit_defaults [of None None None None None example_db None None None None None]
    by simp
  moreover have "getAllProviders (Some 1) (Some 10) None None example_db
          = Inr \<lparr>totalItems = 2, totalPages = Num 1, currentPage = 1,
                 items = [provider_cohere, provider_openai]\<rparr>"
    by (simp add: getAllProviders_def getOffset_def default_to_def findAndCountAll_def
          math_ceil_div_def providers_where_def when_given_def satisfies_def example_db_def
          order_asc_def provider_openai_def provider_cohere_def)
  ultimately show ?thesis by simp
qed

section \<open>Deleting rows\<close>

lemma findByPk_Some_key: "findByPk key i table = Some r \<Longrightarrow> key r = i"
  by (auto simp add: findByPk_def find_Some_iff)

lemma provider_message_includes:
  "str_includes ''Cannot delete provider because it is referenced by other records.''
     ''referenced by other records''"
  by simp










lemma find_filter_other: "find (\<lambda>r. key r = i) (filter (\<lambda>r. key r \<noteq> i) xs) = None"
  by (simp add: find_None_iff)

lemma deleteProvider_missing:
  "findByPk pv_id i (llm_provider d) = None \<Longrightarrow>
   deleteProvider_ctl [] i d = (respond 404 (Message ''Provider not found''), d)"
  by (simp add: deleteProvider_ctl_def deleteProvider_def validate_def)

lemma deleteProvider_done:
  assumes "deleteProvider_ctl [] i d = (respond 204 NoContent, d')"
  shows "findByPk pv_id i (llm_provider d') = None"
proof (cases "findByPk pv_id i (llm_provider d)")
  case None
  then show ?thesis using assms
    by (simp add: deleteProvider_ctl_def deleteProvider_def validate_def respond_def)
next
  case (Some p)
  then have k: "pv_id p = i" by (rule findByPk_Some_key)
  show ?thesis
  proof (cases "LLMProvider_destroy p d")
    case (Inl err)
    then have "err = SequelizeForeignKeyConstraintError
                  ''update or delete on table llm_provider violates foreign key constraint''"
      by (simp add: LLMProvider_destroy_def split: if_splits)
    then show ?thesis using assms Some Inl provider_message_includes
      by (simp add: deleteProvider_ctl_def deleteProvider_def validate_def respond_def)
  next
    case (Inr d2)
    then have "d2 = d\<lparr>llm_provider := filter (\<lambda>r. pv_id r \<noteq> i) (llm_provider d)\<rparr>"
      using k by (simp add: LLMProvider_destroy_def split: if_splits)
    moreover have "d' = d2" using assms Some Inr
      by (simp add: deleteProvider_ctl_def deleteProvider_def validate_def)
    ultimately show ?thesis by (simp add: findByPk_def find_filter_other)
  qed
qed

lemma deleteProvider_idempotent:
  assumes "deleteProvider_ctl [] i d = (respond 204 NoContent, d')"
  shows "deleteProvider_ctl [] i d' = (respond 404 (Message ''Provider not found''), d')"
  using deleteProvider_missing[OF deleteProvider_done[OF assms]] .

lemma deleteModel_missing:
  "findByPk md_id i (llm_model d) = None \<Longrightarrow>
   deleteModel_ctl [] i d = (respond 500 (ErrorBody 500 ''createError is not defined''), d)"
  by (simp add: deleteModel_ctl_def deleteModel_def validate_def next_createError_def
        controller_createError_def globalErrorHandler_def)

text \<open>
  Claim C9.  Deleting an id that is not there is answered with 404 by the provider
  controller, also after a successful delete (the two lemmas above), but not by the model
  controller: its handler evaluates \<^verbatim>\<open>createError\<close>, which the module never binds, and the
  resulting error reaches the global handler.  A model that no row refers to is deleted with
  204; the same DELETE again, or the DELETE of an id that never existed, answers 500.
\<close>

theorem delete_missing_model_answers_500:
  "deleteModel_ctl [] ''3f2504e0-4f89-41d3-9a0c-0305e82c3301'' example_db
     = (respond 204 NoContent, example_db\<lparr>llm_model := []\<rparr>)
   \<and> deleteModel_ctl [] ''3f2504e0-4f89-41d3-9a0c-0305e82c3301'' (example_db\<lparr>llm_model := []\<rparr>)
     = (respond 500 (ErrorBody 500 ''createError is not defined''), example_db\<lparr>llm_model := []\<rparr>)
   \<and> deleteModel_ctl [] ''6fa459ea-ee8a-4ca4-894e-db77e160355e'' example_db
     = (respond 500 (ErrorBody 500 ''createError is not defined''), example_db)"
  by (simp add: deleteModel_ctl_def deleteModel_def validate_def next_createError_def
        controller_createError_def globalErrorHandler_def findByPk_def LLMModel_destroy_def
        example_db_def model_gpt_def)

section \<open>Filters\<close>

lemma models_where_search_and_name:
  "name \<noteq> [] \<Longrightarrow>
   models_where search (Some name) None None = [(''name'', Eq name)]"
  by (cases search) (simp_all add: models_where_def when_given_def)

text \<open>
  Claim C8.  The where-clause is a conjunction of the conditions it holds (the three
  lemmas below), but \<^verbatim>\<open>getAllModels\<close> files the search and the exact name under the same key:
  with both supplied only the name is left.  Searching for \<^verbatim>\<open>xyz\<close> with the name \<^verbatim>\<open>GPT\<close>
  selects the model named GPT, which the search alone rejects.
\<close>

theorem search_dropped_when_name_given:
  "models_where (Some ''xyz'') (Some ''GPT'') None None = [(''name'', Eq ''GPT'')]
   \<and> getAllModels None None (Some ''xyz'') (Some ''GPT'') None None example_db
       = Inr \<lparr>totalItems = 1, totalPages = Num 1, currentPage = 1,
              items = [(model_gpt, Some (''d290f1ee-6c54-4b01-90e6-d701748f0851'', ''OpenAI''))]\<rparr>
   \<and> \<not> iLike ''%xyz%'' (md_name model_gpt)"
  by (simp add: models_where_def when_given_def getAllModels_def default_to_def
        findAndCountAll_def math_ceil_div_def satisfies_def col_model_def order_asc_def
        include_llmProvider_def findByPk_def example_db_def model_gpt_def provider_openai_def
        provider_cohere_def iLike_def lower_char_def)

lemma satisfies_providers_where:
  "satisfies col_provider (providers_where search country) r \<longleftrightarrow>
     (\<forall>s. search = Some s \<and> s \<noteq> [] \<longrightarrow> iLike (''%'' @ s @ ''%'') (pv_name r))
     \<and> (\<forall>c. country = Some c \<and> c \<noteq> [] \<longrightarrow> holds (ILike c) (pv_country r))"
  by (cases search; cases country)
     (auto simp add: providers_where_def when_given_def satisfies_def col_provider_def)

lemma satisfies_models_where_no_name:
  "name = None \<or> name = Some [] \<Longrightarrow>
   satisfies col_model (models_where search name provider license) r \<longleftrightarrow>
     (\<forall>s. search = Some s \<and> s \<noteq> [] \<longrightarrow> iLike (''%'' @ s @ ''%'') (md_name r))
     \<and> (\<forall>p. provider = Some p \<and> p \<noteq> [] \<longrightarrow> md_provider r = p)
     \<and> (\<forall>l. license = Some l \<and> l \<noteq> [] \<longrightarrow> holds (ILike (''%'' @ l @ ''%'')) (md_license r))"
  by (cases search; cases provider; cases license)
     (auto simp add: models_where_def when_given_def satisfies_def col_model_def)

lemma satisfies_models_where_name:
  "name = Some n \<Longrightarrow> n \<noteq> [] \<Longrightarrow>
   satisfies col_model (models_where search name provider license) r \<longleftrightarrow>
     md_name r = n
     \<and> (\<forall>p. provider = Some p \<and> p \<noteq> [] \<longrightarrow> md_provider r = p)
     \<and> (\<forall>l. license = Some l \<and> l \<noteq> [] \<longrightarrow> holds (ILike (''%'' @ l @ ''%'')) (md_license r))"
  by (cases search; cases provider; cases license)
     (auto simp add: models_where_def when_given_def satisfies_def col_model_def)

section \<open>Creating rows\<close>








subsection \<open>Model-prompt associations\<close>

lemma show_nat_nonempty: "show_nat n \<noteq> []"
  by (subst show_nat.simps) simp

lemma show_int_nonempty: "show_int i \<noteq> []"
  by (simp add: show_int_def show_nat_nonempty)

lemma order_message_includes:
  "str_includes ''This order value is already used for the specified model.''
     ''already used for the specified model''"
  by simp

lemma createLLMPrompt_fresh:
  assumes "int2_ok (default_to 0 (a_order a))"
    and "(a_model_id a, a_prompt_id a)
           \<notin> set (map (\<lambda>r. (lp_model_id r, lp_prompt_id r)) (llm_prompt d))"
    and "(a_model_id a, a_order a) \<notin> set (map (\<lambda>r. (lp_model_id r, lp_order r)) (llm_prompt d))"
    and "a_model_id a \<in> set (map md_id (llm_model d))"
    and "a_prompt_id a \<in> set (map pr_id (prompt d))"
  shows "createLLMPrompt_ctl [] now a d
           = (respond 201 (Json (LLMPrompt_build now a)),
              d\<lparr>llm_prompt := llm_prompt d @ [LLMPrompt_build now a]\<rparr>)"
proof -
  have "LLMPrompt_create now a d
          = Inr (LLMPrompt_build now a, d\<lparr>llm_prompt := llm_prompt d @ [LLMPrompt_build now a]\<rparr>)"
    using assms by (simp add: LLMPrompt_create_def Let_def)
  then have "createLLMPrompt now a d
          = (Inr (LLMPrompt_build now a), d\<lparr>llm_prompt := llm_prompt d @ [LLMPrompt_build now a]\<rparr>)"
    by (simp add: createLLMPrompt_def)
  then show ?thesis
    by (simp add: createLLMPrompt_ctl_def validate_llmPrompt_def)
qed


lemma createLLMPrompt_duplicate_order:
  assumes "a_order a = Some n" and "int2_ok n" and "a_model_id a \<noteq> []"
    and "(a_model_id a, a_prompt_id a)
           \<notin> set (map (\<lambda>r. (lp_model_id r, lp_prompt_id r)) (llm_prompt d))"
    and "(a_model_id a, Some n) \<in> set (map (\<lambda>r. (lp_model_id r, lp_order r)) (llm_prompt d))"
  shows "createLLMPrompt_ctl [] now a d
           = (respond 400
                (StatusMessage ''This order value is already used for the specified model.''), d)"
proof -
  have "LLMPrompt_create now a d
          = Inl (SequelizeUniqueConstraintError
                   [(''model_id'', a_model_id a), (''order'', show_int n)]
                   [''model_id must be unique'', ''order must be unique''])"
    using assms by (simp add: LLMPrompt_create_def default_to_def)
  then have "createLLMPrompt now a d
          = (Inl (Error ''This order value is already used for the specified model.''), d)"
    using assms(3) show_int_nonempty[of n]
    by (simp add: createLLMPrompt_def field_truthy_def)
  then show ?thesis
    using order_message_includes
    by (simp add: createLLMPrompt_ctl_def validate_llmPrompt_def del: str_includes.simps)
qed

text \<open>
  Claim C4.  Two associations of one model, with different prompts (both pairs new) and
  the same order \<open>n\<close>: the first create is answered with 201 and inserts its row; the second,
  on the database the first left, is answered with 400 and the duplicate-order message and
  inserts nothing.  The model and the first prompt exist, and \<open>n\<close> fits the
  \<^verbatim>\<open>SMALLINT\<close> column.
\<close>

theorem duplicate_order_is_400:
  assumes "a_order a = Some n" and "a_order b = Some n" and "int2_ok n"
    and "a_model_id a \<noteq> []" and "a_model_id b = a_model_id a"
    and "a_prompt_id b \<noteq> a_prompt_id a"
    and "a_model_id a \<in> set (map md_id (llm_model d))"
    and "a_prompt_id a \<in> set (map pr_id (prompt d))"
    and "(a_model_id a, a_prompt_id a)
           \<notin> set (map (\<lambda>r. (lp_model_id r, lp_prompt_id r)) (llm_prompt d))"
    and "(a_model_id a, a_prompt_id b)
           \<notin> set (map (\<lambda>r. (lp_model_id r, lp_prompt_id r)) (llm_prompt d))"
    and "(a_model_id a, Some n) \<notin> set (map (\<lambda>r. (lp_model_id r, lp_order r)) (llm_prompt d))"
  shows "createLLMPrompt_ctl [] t1 a d
           = (respond 201 (Json (LLMPrompt_build t1 a)),
              d\<lparr>llm_prompt := llm_prompt d @ [LLMPrompt_build t1 a]\<rparr>)
       \<and> createLLMPrompt_ctl [] t2 b (d\<lparr>llm_prompt := llm_prompt d @ [LLMPrompt_build t1 a]\<rparr>)
           = (respond 400
                (StatusMessage ''This order value is already used for the specified model.''),
              d\<lparr>llm_prompt := llm_prompt d @ [LLMPrompt_build t1 a]\<rparr>)"
proof
  show "createLLMPrompt_ctl [] t1 a d
           = (respond 201 (Json (LLMPrompt_build t1 a)),
              d\<lparr>llm_prompt := llm_prompt d @ [LLMPrompt_build t1 a]\<rparr>)"
    using assms by (intro createLLMPrompt_fresh) (simp_all add: default_to_def)
  let ?d = "d\<lparr>llm_prompt := llm_prompt d @ [LLMPrompt_build t1 a]\<rparr>"
  have "(a_model_id b, a_prompt_id b)
           \<notin> set (map (\<lambda>r. (lp_model_id r, lp_prompt_id r)) (llm_prompt ?d))"
    using assms by (simp add: LLMPrompt_build_def)
  moreover have "(a_model_id b, Some n)
           \<in> set (map (\<lambda>r. (lp_model_id r, lp_order r)) (llm_prompt ?d))"
    using assms by (simp add: LLMPrompt_build_def)
  ultimately show "createLLMPrompt_ctl [] t2 b ?d
           = (respond 400
                (StatusMessage ''This order value is already used for the specified model.''), ?d)"
    using assms by (intro createLLMPrompt_duplicate_order[where n = n]) simp_all
qed

theorem duplicate_order_is_400_witness:
  "createLLMPrompt_ctl [] 6 association_first example_db
     = (respond 201 (Json (LLMPrompt_build 6 association_first)),
        example_db\<lparr>llm_prompt := [LLMPrompt_build 6 association_first]\<rparr>)
   \<and> createLLMPrompt_ctl [] 7 association_second (example_db\<lparr>llm_prompt := [LLMPrompt_build 6 association_first]\<rparr>)
     = (respond 400
          (StatusMessage ''This order value is already used for the specified model.''),
        example_db\<lparr>llm_prompt := [LLMPrompt_build 6 association_first]\<rparr>)"
proof -
  have "a_order association_first = Some 1" "a_order association_second = Some 1" "int2_ok 1"
    "a_model_id association_first \<noteq> []" "a_model_id association_second = a_model_id association_first"
    "a_prompt_id association_second \<noteq> a_prompt_id association_first"
    "a_model_id association_first \<in> set (map md_id (llm_model example_db))"
    "a_prompt_id association_first \<in> set (map pr_id (prompt example_db))"
    "(a_model_id association_first, a_prompt_id association_first)
           \<notin> set (map (\<lambda>r. (lp_model_id r, lp_prompt_id r)) (llm_prompt example_db))"
    "(a_model_id association_first, a_prompt_id association_second)
           \<notin> set (map (\<lambda>r. (lp_model_id r, lp_prompt_id r)) (llm_prompt example_db))"
    "(a_model_id association_first, Some 1)
           \<notin> set (map (\<lambda>r. (lp_model_id r, lp_order r)) (llm_prompt example_db))"
    by (simp_all add: association_first_def association_second_def int2_ok_def example_db_def model_gpt_def
          prompt_hello_def prompt_bye_def)
  from duplicate_order_is_400 [OF this, of 6 7]
  show ?thesis by (simp add: example_db_def)
qed

section \<open>Validation failures\<close>

lemma map_pair_id: "map (\<lambda>(path, msg). (path, msg)) errors = errors"
  by (induction errors) auto

lemma validate_rejects:
  "errors \<noteq> [] \<Longrightarrow> validate errors next d = (respond 422 (Errors errors), d)"
  by (simp add: validate_def map_pair_id)

lemma validate_userPrompt_rejects:
  "errors \<noteq> [] \<Longrightarrow>
   validate_userPrompt errors next d
     = (respond 422 (Errors (map (\<lambda>(path, msg). (path_or_general path, msg)) errors)), d)"
  by (simp add: validate_userPrompt_def)

lemma validate_llmPrompt_rejects:
  "errors \<noteq> [] \<Longrightarrow>
   validate_llmPrompt errors next d
     = (respond 422
          (ValidationFailed (map (\<lambda>(path, msg). (path_or_general path, msg)) errors)), d)"
  by (simp add: validate_llmPrompt_def)

text \<open>
  Claim C5, as amended.  When the rule chains of a route guarded by a \<^verbatim>\<open>validate\<close> middleware
  leave at least one error, the route answers 422 with the list of (field, message) pairs
  and the database untouched, whatever the handler behind it is: the service is not
  invoked.  This holds of the middleware of each controller and of every guarded route of
  the provider, model, evaluator, model-prompt and user-prompt controllers.  The prompt
  controller has no rule chains: \<^verbatim>\<open>createPrompt\<close> checks the body itself and answers a missing
  prompt or token count with 400 and one message, before it reaches the storage.
\<close>

theorem validation_failure_is_422:
  assumes "errors \<noteq> []"
  shows "validate errors next d = (respond 422 (Errors errors), d)
    \<and> validate_userPrompt errors next d
        = (respond 422 (Errors (map (\<lambda>(path, msg). (path_or_general path, msg)) errors)), d)
    \<and> validate_llmPrompt errors next d
        = (respond 422
             (ValidationFailed (map (\<lambda>(path, msg). (path_or_general path, msg)) errors)), d)
    \<and> getAllProviders_ctl errors page limit search country d = (respond 422 (Errors errors), d)
    \<and> getProviderById_ctl errors i d = (respond 422 (Errors errors), d)
    \<and> updateProvider_ctl errors i pb d = (respond 422 (Errors errors), d)
    \<and> deleteProvider_ctl errors i d = (respond 422 (Errors errors), d)
    \<and> getAllModels_ctl errors page limit search name provider license d
        = (respond 422 (Errors errors), d)
    \<and> getModelById_ctl errors i d = (respond 422 (Errors errors), d)
    \<and> createModel_ctl errors new_id now modelData d = (respond 422 (Errors errors), d)
    \<and> deleteModel_ctl errors i d = (respond 422 (Errors errors), d)
    \<and> getAllUsers_ctl errors page limit search d = (respond 422 (Errors errors), d)
    \<and> getUserById_ctl errors i d = (respond 422 (Errors errors), d)
    \<and> deleteUser_ctl errors i d = (respond 422 (Errors errors), d)
    \<and> getAllLLMPrompts_ctl errors page limit model_id prompt_id d
        = (respond 422
             (ValidationFailed (map (\<lambda>(path, msg). (path_or_general path, msg)) errors)), d)
    \<and> createLLMPrompt_ctl errors now a d
        = (respond 422
             (ValidationFailed (map (\<lambda>(path, msg). (path_or_general path, msg)) errors)), d)
    \<and> deleteLLMPrompt_ctl errors model_id' prompt_id' d
        = (respond 422
             (ValidationFailed (map (\<lambda>(path, msg). (path_or_general path, msg)) errors)), d)
    \<and> getAllUserPrompts_ctl errors page limit user_id prompt_id d
        = (respond 422 (Errors (map (\<lambda>(path, msg). (path_or_general path, msg)) errors)), d)
    \<and> deleteUserPrompt_ctl errors userId promptId d
        = (respond 422 (Errors (map (\<lambda>(path, msg). (path_or_general path, msg)) errors)), d)
    \<and> (b_prompt b = None \<or> b_prompt b = Some [] \<or> b_prompt_tokens b = None
         \<longrightarrow> createPrompt new_id now b d
             = (respond 400 (Message ''Missing required fields: prompt and prompt_tokens''), d))"
proof -
  note r = validate_rejects[OF assms] validate_userPrompt_rejects[OF assms]
    validate_llmPrompt_rejects[OF assms]
  show ?thesis
    unfolding getAllProviders_ctl_def getProviderById_ctl_def updateProvider_ctl_def
      deleteProvider_ctl_def getAllModels_ctl_def getModelById_ctl_def createModel_ctl_def
      deleteModel_ctl_def getAllUsers_ctl_def getUserById_ctl_def deleteUser_ctl_def
      getAllLLMPrompts_ctl_def createLLMPrompt_ctl_def deleteLLMPrompt_ctl_def
      getAllUserPrompts_ctl_def deleteUserPrompt_ctl_def
    by (simp only: r simp_thms) (simp add: createPrompt_def)
qed

theorem validation_failure_is_422_witness:
  "createModel_ctl [(''name'', ''Name is required'')] ''6fa459ea-ee8a-4ca4-894e-db77e160355e'' 6
      model_data_example example_db
     = (respond 422 (Errors [(''name'', ''Name is required'')]), example_db)"
proof -
  have "[(''name'', ''Name is required'')] \<noteq> ([] :: verr list)" by simp
  from validation_failure_is_422 [OF this, where d = example_db and modelData = model_data_example
      and new_id = "''6fa459ea-ee8a-4ca4-894e-db77e160355e''" and now = 6]
  show ?thesis by blast
qed

text \<open>
  Claim C5 as stated fails on the prompt routes: a create-prompt request without the
  required \<^verbatim>\<open>prompt\<close> field is answered with 400 and a single message, not with 422 and a
  list.
\<close>

theorem create_prompt_missing_field_is_400:
  "createPrompt ''6fa459ea-ee8a-4ca4-894e-db77e160355e'' 6
      \<lparr>b_prompt = None, b_prompt_tokens = Some (JNumber 5), b_description = None\<rparr> example_db
     = (respond 400 (Message ''Missing required fields: prompt and prompt_tokens''), example_db)
   \<and> status (fst (createPrompt ''6fa459ea-ee8a-4ca4-894e-db77e160355e'' 6
      \<lparr>b_prompt = None, b_prompt_tokens = Some (JNumber 5), b_description = None\<rparr> example_db))
      \<noteq> 422"
  by (simp add: createPrompt_def respond_def)

section \<open>Updating rows\<close>









end
